theory Spec2Isabelle
  imports Main "HOL-Library.Char_ord" "HOL-Library.List_Lexorder" "HOL-Library.AList"
begin

section \<open>Identifiers and JavaScript values\<close>

text \<open>
  The real-time core is the second, improved Socket.IO configuration module. Its
  state is two module-level maps (\<open>onlineUsers\<close>, \<open>userRooms\<close>), the transport's own
  bookkeeping of connected sockets and their rooms, and the relational store reached
  through Prisma. Identities, socket ids, room names and message ids are JavaScript
  strings; a \<open>char\<close> stands for one code unit and the order on strings is the
  lexicographic order on code units that \<open>Array.prototype.sort\<close> uses by default.
  Time is the millisecond count of \<open>Date.now()\<close>. An absent (\<open>undefined\<close>) field of
  a payload is \<open>None\<close>. A handler that awaits the store (\<open>chat:join\<close>, \<open>message:send\<close>,
  \<open>message:read\<close>) is given as one function, its run when no other event is handled
  during its awaits; the code that \<open>message:send\<close> runs after its last await is also a
  function of its own, of the state it then reads. \<open>broadcastUserStatus\<close> is called
  without \<open>await\<close>: the handler that calls it only records the call, and the events it
  emits are a function of the state at the time its query is answered.
\<close>

type_synonym user_id = string
type_synonym socket_id = string
type_synonym room_name = string
type_synonym message_id = string
type_synonym time = int

definition falsy :: "string option \<Rightarrow> bool" where
  "falsy v = (case v of None \<Rightarrow> True | Some s \<Rightarrow> s = [])"

definition js_str :: "string option \<Rightarrow> string" where
  "js_str v = (case v of None \<Rightarrow> [] | Some s \<Rightarrow> s)"

text \<open>\<open>Array.prototype.sort()\<close> without comparator: the defined elements in ascending
  code-unit order (stable), every \<open>undefined\<close> after them.\<close>

fun defined :: "string option list \<Rightarrow> string list" where
  "defined [] = []"
| "defined (None # xs) = defined xs"
| "defined (Some s # xs) = s # defined xs"

definition js_sort :: "string option list \<Rightarrow> string option list" where
  "js_sort xs = map Some (sort (defined xs)) @ filter (\<lambda>x. x = None) xs"

text \<open>\<open>Array.prototype.join(sep)\<close>: an \<open>undefined\<close> element is rendered as the empty string.\<close>

fun js_join :: "string \<Rightarrow> string option list \<Rightarrow> string" where
  "js_join sep [] = []"
| "js_join sep [x] = js_str x"
| "js_join sep (x # y # ys) = js_str x @ sep @ js_join sep (y # ys)"

text \<open>\<open>[userId, otherUserId].sort().join('-')\<close>, the expression every handler uses.\<close>

definition room_id :: "user_id \<Rightarrow> string option \<Rightarrow> room_name" where
  "room_id uid other = js_join ''-'' (js_sort [Some uid, other])"

text \<open>A JavaScript \<open>Set\<close> of strings, in insertion order.\<close>

definition set_add :: "string \<Rightarrow> string list \<Rightarrow> string list" where
  "set_add x xs = (if x \<in> set xs then xs else xs @ [x])"

definition set_delete :: "string \<Rightarrow> string list \<Rightarrow> string list" where
  "set_delete x xs = removeAll x xs"

section \<open>The relational store\<close>

text \<open>
  Tables \<open>friendships\<close> and \<open>messages\<close> of the migration, with the columns the socket
  handlers read or write. \<open>unavailable\<close> lists the Prisma calls the store currently
  rejects (lost connection, timeout): each such call throws.
\<close>

record friendship =
  userId1 :: user_id
  userId2 :: user_id
  isBlocked :: bool

record message =
  msg_id :: message_id
  senderId :: user_id
  receiverId :: user_id
  content :: string
  msg_type :: string
  isRead :: bool
  sentAt :: time
  readAt :: "time option"

datatype prisma_op = FriendshipFindFirst | FriendshipFindMany | MessageCreate | MessageUpdate

datatype prisma_error = StoreUnavailable | ValidationError | UniqueConstraint | RecordNotFound

record database =
  friendships :: "friendship list"
  messages :: "message list"
  unavailable :: "prisma_op list"

text \<open>The \<open>where\<close> clause of both \<open>findFirst\<close> calls: the pair in either order, not blocked.\<close>

definition friendship_between :: "user_id \<Rightarrow> user_id \<Rightarrow> friendship \<Rightarrow> bool" where
  "friendship_between a b f =
     (((userId1 f = a \<and> userId2 f = b) \<or> (userId1 f = b \<and> userId2 f = a)) \<and> \<not> isBlocked f)"

definition friendship_findFirst ::
  "database \<Rightarrow> user_id \<Rightarrow> user_id \<Rightarrow> prisma_error + friendship option" where
  "friendship_findFirst d a b =
     (if FriendshipFindFirst \<in> set (unavailable d) then Inl StoreUnavailable
      else Inr (find (friendship_between a b) (friendships d)))"

definition friendship_findMany :: "database \<Rightarrow> user_id \<Rightarrow> prisma_error + friendship list" where
  "friendship_findMany d u =
     (if FriendshipFindMany \<in> set (unavailable d) then Inl StoreUnavailable
      else Inr (filter (\<lambda>f. (userId1 f = u \<or> userId2 f = u) \<and> \<not> isBlocked f) (friendships d)))"

text \<open>The enum \<open>MessageType\<close> of the migration.\<close>

definition MessageType :: "string list" where
  "MessageType = [''text'', ''image'', ''file'']"

text \<open>
  \<open>prisma.message.create\<close>: the row gets the generated primary key \<open>new_id\<close>,
  \<open>isRead = false\<close>, \<open>sentAt = now\<close> and no \<open>readAt\<close> (the column defaults). It throws
  when the store is unavailable, when \<open>type\<close> is not a member of the enum, and when the
  key is already taken. The foreign keys of the new row are those of the friendship row
  found just before.
\<close>

definition message_create ::
  "database \<Rightarrow> message_id \<Rightarrow> user_id \<Rightarrow> user_id \<Rightarrow> string \<Rightarrow> string \<Rightarrow> time
     \<Rightarrow> prisma_error + (message \<times> database)" where
  "message_create d new_id sender receiver text ty now =
     (if MessageCreate \<in> set (unavailable d) then Inl StoreUnavailable
      else if ty \<notin> set MessageType then Inl ValidationError
      else if new_id \<in> set (map msg_id (messages d)) then Inl UniqueConstraint
      else (let m = \<lparr>msg_id = new_id, senderId = sender, receiverId = receiver, content = text,
                      msg_type = ty, isRead = False, sentAt = now, readAt = None\<rparr>
            in Inr (m, d\<lparr>messages := messages d @ [m]\<rparr>)))"

text \<open>\<open>prisma.message.update({where: {id}, data: {isRead: true, readAt: new Date()}})\<close>:
  throws when the id is absent from the payload or matches no row.\<close>

definition message_update ::
  "database \<Rightarrow> message_id option \<Rightarrow> time \<Rightarrow> prisma_error + database" where
  "message_update d mid now =
     (if MessageUpdate \<in> set (unavailable d) then Inl StoreUnavailable
      else case mid of
        None \<Rightarrow> Inl ValidationError
      | Some i \<Rightarrow>
          if i \<notin> set (map msg_id (messages d)) then Inl RecordNotFound
          else Inr (d\<lparr>messages :=
                 map (\<lambda>m. if msg_id m = i then m\<lparr>isRead := True, readAt := Some now\<rparr> else m)
                   (messages d)\<rparr>))"

section \<open>Server state and emitted events\<close>

record presence =
  socketId :: socket_id
  lastActivity :: time

text \<open>What a connection's handlers capture: \<open>socket.id\<close>, \<open>socket.userId\<close>,
  \<open>socket.user.username\<close>.\<close>

record socket =
  sock_id :: socket_id
  userId :: user_id
  username :: string

text \<open>
  \<open>onlineUsers\<close> and \<open>userRooms\<close> are the two module-level \<open>Map\<close>s, kept as association
  lists in insertion order. \<open>sockets\<close> is the transport's bookkeeping: the connected
  sockets, each with the chat rooms it has joined through \<open>socket.join\<close>.
\<close>

record server =
  onlineUsers :: "(user_id \<times> presence) list"
  userRooms :: "(user_id \<times> room_name list) list"
  sockets :: "(socket \<times> room_name list) list"
  db :: database

datatype payload =
    Failure string
  | FailureOf prisma_error
  | FailureOfTypeError
  | Success
  | Joined room_name string
  | Sent message "string option"
  | NewMessage message "string option"
  | Notification user_id string string message_id
  | Typing user_id string bool
  | ReadReceipt "message_id option" user_id time
  | Status user_id string time
  | HeartbeatAck time

text \<open>
  \<open>io.to(x)\<close> is called with a stored socket id at some places and with a chat room name
  at the others; socket ids and chat room names are taken as disjoint name spaces.
\<close>

datatype dest = ToSocket socket_id | ToRoom room_name

text \<open>
  What a handler does, in program order: \<open>callback(p)\<close>, \<open>socket.emit(ev, p)\<close> on the
  calling socket, \<open>io.to(d).emit(ev, p)\<close>, \<open>socket.to(room).emit(ev, p)\<close> (the room
  without the calling socket), and the call \<open>broadcastUserStatus(io, u, status)\<close> that is
  not awaited: it sends the friendship query and emits nothing before the answer.
\<close>

datatype effect =
    Callback payload
  | SocketEmit string payload
  | IoEmit dest string payload
  | SocketBroadcast room_name string payload
  | StatusBroadcast user_id string

text \<open>The connected sockets an effect reaches, when \<open>caller\<close> is the calling socket.\<close>

fun recipients :: "server \<Rightarrow> socket \<Rightarrow> effect \<Rightarrow> socket_id list" where
  "recipients st caller (Callback p) = [sock_id caller]"
| "recipients st caller (SocketEmit ev p) = [sock_id caller]"
| "recipients st caller (IoEmit (ToSocket h) ev p) =
     map sock_id (filter (\<lambda>s. sock_id s = h) (map fst (sockets st)))"
| "recipients st caller (IoEmit (ToRoom r) ev p) =
     map (\<lambda>(s, rs). sock_id s) (filter (\<lambda>(s, rs). r \<in> set rs) (sockets st))"
| "recipients st caller (SocketBroadcast r ev p) =
     map (\<lambda>(s, rs). sock_id s)
       (filter (\<lambda>(s, rs). r \<in> set rs \<and> sock_id s \<noteq> sock_id caller) (sockets st))"
| "recipients st caller (StatusBroadcast u status) = []"

text \<open>\<open>callback ? callback(error) : socket.emit('error', error)\<close>\<close>

definition report :: "bool \<Rightarrow> payload \<Rightarrow> effect list" where
  "report cb p = (if cb then [Callback p] else [SocketEmit ''error'' p])"

definition CONNECTION_TIMEOUT :: time where
  "CONNECTION_TIMEOUT = 5 * 60 * 1000"

definition isUserOnline :: "server \<Rightarrow> user_id \<Rightarrow> bool" where
  "isUserOnline st u = (map_of (onlineUsers st) u \<noteq> None)"

text \<open>The closure \<open>updateActivity\<close> of a connection.\<close>

definition updateActivity :: "user_id \<Rightarrow> time \<Rightarrow> server \<Rightarrow> server" where
  "updateActivity u now st =
     (case map_of (onlineUsers st) u of
        None \<Rightarrow> st
      | Some d \<Rightarrow> st\<lparr>onlineUsers := AList.update u (d\<lparr>lastActivity := now\<rparr>) (onlineUsers st)\<rparr>)"

text \<open>\<open>f.userId1 === userId ? f.userId2 : f.userId1\<close>\<close>

definition friendId_of :: "user_id \<Rightarrow> friendship \<Rightarrow> user_id" where
  "friendId_of u f = (if userId1 f = u then userId2 f else userId1 f)"

text \<open>
  \<open>broadcastUserStatus\<close> from the point where its awaited \<open>findMany\<close> has been answered
  with \<open>answer\<close>: \<open>st\<close> and \<open>now\<close> are the state and the time at that point. One
  \<open>user:status\<close> event per row of the answer whose other party has a presence entry; a
  failed query is logged and nothing is sent.
\<close>

definition broadcastUserStatus ::
  "server \<Rightarrow> user_id \<Rightarrow> string \<Rightarrow> time \<Rightarrow> prisma_error + friendship list \<Rightarrow> effect list" where
  "broadcastUserStatus st u status now answer =
     (case answer of
        Inl e \<Rightarrow> []
      | Inr fs \<Rightarrow>
          concat (map (\<lambda>friendId.
                    case map_of (onlineUsers st) friendId of
                      None \<Rightarrow> []
                    | Some fd \<Rightarrow> [IoEmit (ToSocket (socketId fd)) ''user:status'' (Status u status now)])
                  (map (friendId_of u) fs)))"

section \<open>Connection lifecycle\<close>

definition connection :: "server \<Rightarrow> socket \<Rightarrow> time \<Rightarrow> server \<times> effect list" where
  "connection st sock now =
     (let st1 = st\<lparr>sockets := AList.update sock [] (sockets st),
                   onlineUsers := AList.update (userId sock)
                                    \<lparr>socketId = sock_id sock, lastActivity = now\<rparr> (onlineUsers st)\<rparr>;
          st2 = (if map_of (userRooms st1) (userId sock) = None
                 then st1\<lparr>userRooms := AList.update (userId sock) [] (userRooms st1)\<rparr>
                 else st1)
      in (st2, [StatusBroadcast (userId sock) ''online'']))"

definition disconnect :: "server \<Rightarrow> socket \<Rightarrow> time \<Rightarrow> server \<times> effect list" where
  "disconnect st sock now =
     (let st1 = st\<lparr>sockets := AList.delete sock (sockets st),
                   onlineUsers := AList.delete (userId sock) (onlineUsers st),
                   userRooms := AList.delete (userId sock) (userRooms st)\<rparr>
      in (st1, [StatusBroadcast (userId sock) ''offline'']))"

text \<open>The body of the cleanup interval: \<open>onlineUsers.forEach\<close> with the two deletions.\<close>

fun cleanup_loop ::
  "time \<Rightarrow> (user_id \<times> presence) list \<Rightarrow>
   (user_id \<times> presence) list \<times> (user_id \<times> room_name list) list \<times> nat \<Rightarrow>
   (user_id \<times> presence) list \<times> (user_id \<times> room_name list) list \<times> nat" where
  "cleanup_loop now [] acc = acc"
| "cleanup_loop now ((u, userData) # rest) (ou, ur, cleaned) =
     (if now - lastActivity userData > CONNECTION_TIMEOUT
      then cleanup_loop now rest (AList.delete u ou, AList.delete u ur, cleaned + 1)
      else cleanup_loop now rest (ou, ur, cleaned))"

definition cleanup :: "server \<Rightarrow> time \<Rightarrow> server \<times> effect list" where
  "cleanup st now =
     (case cleanup_loop now (onlineUsers st) (onlineUsers st, userRooms st, 0) of
        (ou, ur, cleaned) \<Rightarrow> (st\<lparr>onlineUsers := ou, userRooms := ur\<rparr>, []))"

section \<open>Chat rooms\<close>

text \<open>Payload objects of the client events; each field may be missing.\<close>

record join_data =
  otherUserId :: "string option"

record send_data =
  receiverId_arg :: "string option"
  content_arg :: "string option"
  type_arg :: "string option"
  tempId :: "string option"

record typing_data =
  typing_receiverId :: "string option"

record read_data =
  messageId :: "message_id option"
  senderId_arg :: "user_id option"

text \<open>
  \<open>chat:join\<close>. \<open>socket.join(roomId)\<close> comes before \<open>userRooms.get(userId).add(roomId)\<close>;
  the latter throws when the user has no entry in \<open>userRooms\<close>, which the \<open>catch\<close>
  reports as a failed join.
\<close>

definition chat_join :: "server \<Rightarrow> socket \<Rightarrow> join_data \<Rightarrow> bool \<Rightarrow> time \<Rightarrow> server \<times> effect list" where
  "chat_join st sock data cb now =
     (let st1 = updateActivity (userId sock) now st in
      if falsy (otherUserId data) then (st1, report cb (Failure ''otherUserId is required''))
      else
        case friendship_findFirst (db st1) (userId sock) (js_str (otherUserId data)) of
          Inl e \<Rightarrow> (st1, report cb (Failure ''Failed to join chat room''))
        | Inr None \<Rightarrow> (st1, report cb (Failure ''Can only chat with friends''))
        | Inr (Some friendship) \<Rightarrow>
            (let roomId = room_id (userId sock) (otherUserId data);
                 st2 = st1\<lparr>sockets := AList.map_entry sock (set_add roomId) (sockets st1)\<rparr>
             in case map_of (userRooms st2) (userId sock) of
                  None \<Rightarrow> (st2, report cb (Failure ''Failed to join chat room''))
                | Some joined \<Rightarrow>
                    (st2\<lparr>userRooms := AList.update (userId sock) (set_add roomId joined) (userRooms st2)\<rparr>,
                     (if cb then [Callback (Joined roomId (js_str (otherUserId data)))] else [])
                     @ [SocketEmit ''chat:joined'' (Joined roomId (js_str (otherUserId data)))])))"

definition chat_leave :: "server \<Rightarrow> socket \<Rightarrow> join_data \<Rightarrow> bool \<Rightarrow> time \<Rightarrow> server \<times> effect list" where
  "chat_leave st sock data cb now =
     (let st1 = updateActivity (userId sock) now st;
          roomId = room_id (userId sock) (otherUserId data)
      in (st1\<lparr>sockets := AList.map_entry sock (set_delete roomId) (sockets st1),
              userRooms := AList.map_entry (userId sock) (set_delete roomId) (userRooms st1)\<rparr>,
          if cb then [Callback Success] else []))"

section \<open>Message delivery\<close>

text \<open>The destructuring default \<open>type = 'text'\<close>.\<close>

definition type_of_data :: "send_data \<Rightarrow> string" where
  "type_of_data data = (case type_arg data of None \<Rightarrow> ''text'' | Some t \<Rightarrow> t)"

text \<open>
  What \<open>message:send\<close> does after \<open>await prisma.message.create\<close> has returned \<open>message\<close>:
  fan-out to the room, acknowledgement, and the notification branch. \<open>st\<close> is the state
  at that point; \<open>onlineUsers\<close> and \<open>userRooms\<close> are read there.
\<close>

definition message_deliver :: "server \<Rightarrow> socket \<Rightarrow> send_data \<Rightarrow> bool \<Rightarrow> message \<Rightarrow> effect list" where
  "message_deliver st sock data cb message =
     (let text = js_str (content_arg data);
          receiver = js_str (receiverId_arg data);
          roomId = room_id (userId sock) (receiverId_arg data)
      in [IoEmit (ToRoom roomId) ''message:new'' (NewMessage message (tempId data))]
         @ (if cb then [Callback (Sent message (tempId data))] else [])
         @ (case map_of (onlineUsers st) receiver of
              None \<Rightarrow> []
            | Some receiverData \<Rightarrow>
                (let receiverRooms =
                       (case map_of (userRooms st) receiver of None \<Rightarrow> [] | Some rs \<Rightarrow> rs)
                 in if roomId \<notin> set receiverRooms
                    then [IoEmit (ToSocket (socketId receiverData)) ''message:notification''
                            (Notification (userId sock) (username sock) (take 50 text)
                               (msg_id message))]
                    else [])))"

text \<open>\<open>message:send\<close>; \<open>new_id\<close> is the primary key the store generates for the row.\<close>

definition message_send ::
  "server \<Rightarrow> socket \<Rightarrow> send_data \<Rightarrow> bool \<Rightarrow> time \<Rightarrow> message_id \<Rightarrow> server \<times> effect list" where
  "message_send st sock data cb now new_id =
     (let st1 = updateActivity (userId sock) now st;
          text = js_str (content_arg data);
          receiver = js_str (receiverId_arg data);
          ty = type_of_data data
      in
      if falsy (content_arg data) \<or> falsy (receiverId_arg data)
      then (st1, report cb (Failure ''Content and receiverId required''))
      else if length text > 5000
      then (st1, report cb (Failure ''Message too long (max 5000 characters)''))
      else
        case friendship_findFirst (db st1) (userId sock) receiver of
          Inl e \<Rightarrow> (st1, report cb (Failure ''Failed to send message''))
        | Inr None \<Rightarrow> (st1, report cb (Failure ''Can only message friends''))
        | Inr (Some friendship) \<Rightarrow>
            (case message_create (db st1) new_id (userId sock) receiver text ty now of
               Inl e \<Rightarrow> (st1, report cb (Failure ''Failed to send message''))
             | Inr (message, d) \<Rightarrow>
                 (st1\<lparr>db := d\<rparr>, message_deliver (st1\<lparr>db := d\<rparr>) sock data cb message)))"

text \<open>
  \<open>typing:start\<close> and \<open>typing:stop\<close> have no \<open>try\<close>: with a missing or \<open>null\<close> payload
  the destructuring \<open>const { receiverId } = data\<close> throws a \<open>TypeError\<close> that nothing
  catches, after \<open>updateActivity\<close> has run, and nothing is emitted. \<open>Inl\<close> is that
  outcome, with the state at the throw.
\<close>

datatype uncaught = TypeError

definition typing_start ::
  "server \<Rightarrow> socket \<Rightarrow> typing_data option \<Rightarrow> time \<Rightarrow> uncaught \<times> server + server \<times> effect list" where
  "typing_start st sock data now =
     (let st1 = updateActivity (userId sock) now st in
      case data of
        None \<Rightarrow> Inl (TypeError, st1)
      | Some d \<Rightarrow>
          (let roomId = room_id (userId sock) (typing_receiverId d)
           in Inr (st1, [SocketBroadcast roomId ''typing:user''
                           (Typing (userId sock) (username sock) True)])))"

definition typing_stop ::
  "server \<Rightarrow> socket \<Rightarrow> typing_data option \<Rightarrow> time \<Rightarrow> uncaught \<times> server + server \<times> effect list" where
  "typing_stop st sock data now =
     (let st1 = updateActivity (userId sock) now st in
      case data of
        None \<Rightarrow> Inl (TypeError, st1)
      | Some d \<Rightarrow>
          (let roomId = room_id (userId sock) (typing_receiverId d)
           in Inr (st1, [SocketBroadcast roomId ''typing:user''
                           (Typing (userId sock) (username sock) False)])))"

text \<open>\<open>message:read\<close>; on a failing update only a supplied callback hears of it.\<close>

definition message_read :: "server \<Rightarrow> socket \<Rightarrow> read_data \<Rightarrow> bool \<Rightarrow> time \<Rightarrow> server \<times> effect list" where
  "message_read st sock data cb now =
     (let st1 = updateActivity (userId sock) now st in
      case message_update (db st1) (messageId data) now of
        Inl e \<Rightarrow> (st1, if cb then [Callback (FailureOf e)] else [])
      | Inr d \<Rightarrow>
          (st1\<lparr>db := d\<rparr>,
           (case senderId_arg data of
              None \<Rightarrow> []
            | Some sender \<Rightarrow>
                (case map_of (onlineUsers st1) sender of
                   None \<Rightarrow> []
                 | Some senderData \<Rightarrow>
                     [IoEmit (ToSocket (socketId senderData)) ''message:read''
                        (ReadReceipt (messageId data) (userId sock) now)]))
           @ (if cb then [Callback Success] else [])))"

definition heartbeat :: "server \<Rightarrow> socket \<Rightarrow> bool \<Rightarrow> time \<Rightarrow> server \<times> effect list" where
  "heartbeat st sock cb now =
     (updateActivity (userId sock) now st, if cb then [Callback (HeartbeatAck now)] else [])"

text \<open>
  The four handlers with a \<open>try\<close>, for a payload that may be missing or \<open>null\<close>: the
  destructuring then throws inside the \<open>try\<close>, after \<open>updateActivity\<close>, and the \<open>catch\<close>
  answers.
\<close>

definition chat_join_event ::
  "server \<Rightarrow> socket \<Rightarrow> join_data option \<Rightarrow> bool \<Rightarrow> time \<Rightarrow> server \<times> effect list" where
  "chat_join_event st sock data cb now =
     (case data of
        None \<Rightarrow> (updateActivity (userId sock) now st, report cb (Failure ''Failed to join chat room''))
      | Some d \<Rightarrow> chat_join st sock d cb now)"

definition chat_leave_event ::
  "server \<Rightarrow> socket \<Rightarrow> join_data option \<Rightarrow> bool \<Rightarrow> time \<Rightarrow> server \<times> effect list" where
  "chat_leave_event st sock data cb now =
     (case data of
        None \<Rightarrow> (updateActivity (userId sock) now st, if cb then [Callback FailureOfTypeError] else [])
      | Some d \<Rightarrow> chat_leave st sock d cb now)"

definition message_send_event ::
  "server \<Rightarrow> socket \<Rightarrow> send_data option \<Rightarrow> bool \<Rightarrow> time \<Rightarrow> message_id \<Rightarrow> server \<times> effect list" where
  "message_send_event st sock data cb now new_id =
     (case data of
        None \<Rightarrow> (updateActivity (userId sock) now st, report cb (Failure ''Failed to send message''))
      | Some d \<Rightarrow> message_send st sock d cb now new_id)"

definition message_read_event ::
  "server \<Rightarrow> socket \<Rightarrow> read_data option \<Rightarrow> bool \<Rightarrow> time \<Rightarrow> server \<times> effect list" where
  "message_read_event st sock data cb now =
     (case data of
        None \<Rightarrow> (updateActivity (userId sock) now st, if cb then [Callback FailureOfTypeError] else [])
      | Some d \<Rightarrow> message_read st sock d cb now)"

section \<open>Observations on states and effects\<close>

text \<open>Who is present and under which connection handle: the presence entries without
  their activity stamps.\<close>

definition handles :: "server \<Rightarrow> (user_id \<times> socket_id) list" where
  "handles st = map (\<lambda>(u, d). (u, socketId d)) (onlineUsers st)"

text \<open>A rejection: one failure object, to the callback when there is one and as an
  \<open>error\<close> event on the calling socket otherwise.\<close>

definition rejected :: "bool \<Rightarrow> effect list \<Rightarrow> bool" where
  "rejected cb es =
     (case es of
        [Callback (Failure m)] \<Rightarrow> cb
      | [SocketEmit ev (Failure m)] \<Rightarrow> \<not> cb \<and> ev = ''error''
      | _ \<Rightarrow> False)"

definition notifications :: "effect list \<Rightarrow> effect list" where
  "notifications es =
     filter (\<lambda>e. case e of IoEmit d ev p \<Rightarrow> ev = ''message:notification'' | _ \<Rightarrow> False) es"

section \<open>Example states\<close>

definition alice :: socket where
  "alice = \<lparr>sock_id = ''s1'', userId = ''u1'', username = ''alice''\<rparr>"

definition alice_again :: socket where
  "alice_again = \<lparr>sock_id = ''s3'', userId = ''u1'', username = ''alice''\<rparr>"

definition bob :: socket where
  "bob = \<lparr>sock_id = ''s2'', userId = ''u2'', username = ''bob''\<rparr>"

definition bob_again :: socket where
  "bob_again = \<lparr>sock_id = ''s4'', userId = ''u2'', username = ''bob''\<rparr>"

text \<open>Users \<open>u1\<close> and \<open>u2\<close> are friends; \<open>u3\<close> has no relationship with either.\<close>

definition store :: database where
  "store = \<lparr>friendships = [\<lparr>userId1 = ''u1'', userId2 = ''u2'', isBlocked = False\<rparr>],
            messages = [], unavailable = []\<rparr>"

definition idle :: server where
  "idle = \<lparr>onlineUsers = [], userRooms = [], sockets = [], db = store\<rparr>"

definition both_online :: server where
  "both_online =
     \<lparr>onlineUsers = [(''u1'', \<lparr>socketId = ''s1'', lastActivity = 0\<rparr>),
                     (''u2'', \<lparr>socketId = ''s2'', lastActivity = 299000\<rparr>)],
      userRooms = [(''u1'', []), (''u2'', [])],
      sockets = [(alice, []), (bob, [])],
      db = store\<rparr>"

definition hello :: send_data where
  "hello = \<lparr>receiverId_arg = Some ''u2'', content_arg = Some ''hi'', type_arg = None,
            tempId = Some ''t1''\<rparr>"

definition unread :: message where
  "unread = \<lparr>msg_id = ''m0'', senderId = ''u1'', receiverId = ''u2'', content = ''hi'',
             msg_type = ''text'', isRead = False, sentAt = 5, readAt = None\<rparr>"

definition inbox :: server where
  "inbox = both_online\<lparr>db := store\<lparr>messages := [unread]\<rparr>\<rparr>"

definition read_m0 :: read_data where
  "read_m0 = \<lparr>messageId = Some ''m0'', senderId_arg = Some ''u1''\<rparr>"

text \<open>The friendship of \<open>u1\<close> and \<open>u2\<close> has been blocked after \<open>u2\<close> joined their room.\<close>

text \<open>Two runs in which \<open>u2\<close> connects a second time, with socket \<open>s4\<close>. In the first the
  old socket \<open>s2\<close> had joined the room with \<open>u1\<close>; in the second the new socket \<open>s4\<close> joins
  it and the old socket \<open>s2\<close> then leaves it.\<close>

definition second_device :: server where
  "second_device =
     fst (connection
            (fst (chat_join (fst (connection (fst (connection idle alice 0)) bob 10)) bob
                    \<lparr>otherUserId = Some ''u1''\<rparr> True 20))
            bob_again 30)"

definition second_device_joined :: server where
  "second_device_joined =
     fst (chat_leave
            (fst (chat_join
                    (fst (connection (fst (connection (fst (connection idle alice 0)) bob 10))
                            bob_again 20))
                    bob_again \<lparr>otherUserId = Some ''u1''\<rparr> True 30))
            bob \<lparr>otherUserId = Some ''u1''\<rparr> True 40)"

definition blocked_pair :: server where
  "blocked_pair =
     both_online\<lparr>userRooms := [(''u1'', []), (''u2'', [''u1-u2''])],
                 sockets := [(alice, []), (bob, [''u1-u2''])],
                 db := store\<lparr>friendships :=
                         [\<lparr>userId1 = ''u1'', userId2 = ''u2'', isBlocked = True\<rparr>]\<rparr>\<rparr>"

section \<open>Runs of the server\<close>

text \<open>
  The events the module reacts to: a connection, the client events of a socket, the
  transport's disconnect event, a tick of the cleanup interval, and the answer to the
  query of a \<open>broadcastUserStatus\<close> call. \<open>reachable\<close> holds of the states the server can
  be in: it starts with empty maps, handles events, and the HTTP routes change the store
  in between. An uncaught \<open>TypeError\<close> of a typing handler leaves the state of the throw.
\<close>

datatype event =
    Connection socket
  | Disconnect socket
  | ChatJoin socket "join_data option" bool
  | ChatLeave socket "join_data option" bool
  | MessageSend socket "send_data option" bool message_id
  | TypingStart socket "typing_data option"
  | TypingStop socket "typing_data option"
  | MessageRead socket "read_data option" bool
  | Heartbeat socket bool
  | CleanupInterval
  | StatusAnswered user_id string "prisma_error + friendship list"

fun handle :: "server \<Rightarrow> event \<Rightarrow> time \<Rightarrow> server \<times> effect list" where
  "handle st (Connection sock) now = connection st sock now"
| "handle st (Disconnect sock) now = disconnect st sock now"
| "handle st (ChatJoin sock data cb) now = chat_join_event st sock data cb now"
| "handle st (ChatLeave sock data cb) now = chat_leave_event st sock data cb now"
| "handle st (MessageSend sock data cb new_id) now = message_send_event st sock data cb now new_id"
| "handle st (TypingStart sock data) now =
     (case typing_start st sock data now of Inl (e, st1) \<Rightarrow> (st1, []) | Inr r \<Rightarrow> r)"
| "handle st (TypingStop sock data) now =
     (case typing_stop st sock data now of Inl (e, st1) \<Rightarrow> (st1, []) | Inr r \<Rightarrow> r)"
| "handle st (MessageRead sock data cb) now = message_read_event st sock data cb now"
| "handle st (Heartbeat sock cb) now = heartbeat st sock cb now"
| "handle st CleanupInterval now = cleanup st now"
| "handle st (StatusAnswered u status answer) now =
     (st, broadcastUserStatus st u status now answer)"

inductive reachable :: "server \<Rightarrow> bool" where
  start: "reachable \<lparr>onlineUsers = [], userRooms = [], sockets = [], db = d\<rparr>"
| event: "reachable st \<Longrightarrow> reachable (fst (handle st ev now))"
| store: "reachable st \<Longrightarrow> reachable (st\<lparr>db := d\<rparr>)"

text \<open>The connected sockets.\<close>

definition connected :: "server \<Rightarrow> socket set" where
  "connected st = fst ` set (sockets st)"


section \<open>Facts about the model\<close>

lemma updateActivity_db [simp]: "db (updateActivity u now st) = db st"
  by (simp add: updateActivity_def split: option.splits)

lemma updateActivity_sockets [simp]: "sockets (updateActivity u now st) = sockets st"
  by (simp add: updateActivity_def split: option.splits)

lemma updateActivity_userRooms [simp]: "userRooms (updateActivity u now st) = userRooms st"
  by (simp add: updateActivity_def split: option.splits)

lemma handles_update_same:
  "map_of ou u = Some d \<Longrightarrow> socketId d' = socketId d \<Longrightarrow>
   map (\<lambda>(u, d). (u, socketId d)) (AList.update u d' ou) = map (\<lambda>(u, d). (u, socketId d)) ou"
  by (induction ou) (auto split: if_splits)

lemma updateActivity_handles [simp]: "handles (updateActivity u now st) = handles st"
  by (simp add: updateActivity_def handles_def handles_update_same split: option.splits)

lemma updateActivity_lookup:
  "map_of (onlineUsers (updateActivity u now st)) v =
     map_option (\<lambda>d. if v = u then d\<lparr>lastActivity := now\<rparr> else d) (map_of (onlineUsers st) v)"
  by (cases "map_of (onlineUsers st) u"; cases "map_of (onlineUsers st) v"; cases "v = u")
     (auto simp: updateActivity_def update_conv')


lemma rejected_report [simp]: "rejected cb (report cb (Failure m))"
  by (simp add: rejected_def report_def)

lemma broadcastUserStatus_failed [simp]: "broadcastUserStatus st u status now (Inl e) = []"
  by (simp add: broadcastUserStatus_def)

lemma broadcastUserStatus_Nil [simp]: "broadcastUserStatus st u status now (Inr []) = []"
  by (simp add: broadcastUserStatus_def)

lemma broadcastUserStatus_Cons:
  "broadcastUserStatus st u status now (Inr (f # fs)) =
     (case map_of (onlineUsers st) (friendId_of u f) of
        None \<Rightarrow> []
      | Some fd \<Rightarrow> [IoEmit (ToSocket (socketId fd)) ''user:status'' (Status u status now)])
     @ broadcastUserStatus st u status now (Inr fs)"
  by (simp add: broadcastUserStatus_def)

lemma broadcastUserStatus_events:
  "e \<in> set (broadcastUserStatus st u status now answer) \<Longrightarrow>
   \<exists>h. e = IoEmit (ToSocket h) ''user:status'' (Status u status now)"
  by (auto simp: broadcastUserStatus_def split: sum.splits option.splits)

text \<open>One event per row of the answer whose other party has a presence entry.\<close>

lemma broadcastUserStatus_count:
  "count_list (broadcastUserStatus st u status now (Inr fs))
     (IoEmit (ToSocket h) ''user:status'' (Status u status now)) =
   length (filter (\<lambda>f. map_option socketId (map_of (onlineUsers st) (friendId_of u f)) = Some h) fs)"
  by (induction fs) (auto simp: broadcastUserStatus_Cons split: option.splits)

lemma broadcastUserStatus_length:
  "length (broadcastUserStatus st u status now (Inr fs)) =
   length (filter (\<lambda>f. map_of (onlineUsers st) (friendId_of u f) \<noteq> None) fs)"
  by (induction fs) (auto simp: broadcastUserStatus_Cons split: option.splits)

lemma message_update_flags:
  "message_update d mid now = Inr d' \<Longrightarrow>
   list_all2 (\<lambda>m m'. msg_id m' = msg_id m \<and> (isRead m \<longrightarrow> isRead m')) (messages d) (messages d')"
  by (auto simp: message_update_def list_all2_conv_all_nth split: if_splits option.splits)

lemma message_update_read:
  "message_update d (Some i) now = Inr d' \<Longrightarrow>
   i \<in> set (map msg_id (messages d')) \<and> (\<forall>m \<in> set (messages d'). msg_id m = i \<longrightarrow> isRead m)"
  by (auto simp: message_update_def split: if_splits intro!: rev_image_eqI)

lemma message_read_flags:
  "list_all2 (\<lambda>m m'. msg_id m' = msg_id m \<and> (isRead m \<longrightarrow> isRead m'))
     (messages (db st)) (messages (db (fst (message_read st sock data cb now))))"
proof (cases "message_update (db st) (messageId data) now")
  case (Inl e)
  then show ?thesis by (simp add: message_read_def Let_def list_all2_conv_all_nth)
next
  case (Inr d)
  then show ?thesis using message_update_flags [OF Inr] by (simp add: message_read_def Let_def)
qed



lemma message_deliver_notifications:
  "notifications (message_deliver st sock data cb msg) =
     (case map_of (onlineUsers st) (js_str (receiverId_arg data)) of
        None \<Rightarrow> []
      | Some receiverData \<Rightarrow>
          if room_id (userId sock) (receiverId_arg data)
               \<in> set (case map_of (userRooms st) (js_str (receiverId_arg data)) of
                        None \<Rightarrow> [] | Some rs \<Rightarrow> rs)
          then []
          else [IoEmit (ToSocket (socketId receiverData)) ''message:notification''
                  (Notification (userId sock) (username sock)
                     (take 50 (js_str (content_arg data))) (msg_id msg))])"
  by (cases "map_of (onlineUsers st) (js_str (receiverId_arg data))")
     (simp_all add: message_deliver_def Let_def notifications_def)



lemma connection_snd: "snd (connection st sock now) = [StatusBroadcast (userId sock) ''online'']"
  by (simp add: connection_def Let_def)

lemma connection_onlineUsers:
  "onlineUsers (fst (connection st sock now)) =
     AList.update (userId sock) \<lparr>socketId = sock_id sock, lastActivity = now\<rparr> (onlineUsers st)"
  by (simp add: connection_def Let_def)

lemma connection_db: "db (fst (connection st sock now)) = db st"
  by (simp add: connection_def Let_def)

lemmas example_defs =
  alice_def alice_again_def bob_def bob_again_def store_def idle_def both_online_def hello_def
  unread_def inbox_def read_m0_def blocked_pair_def second_device_def second_device_joined_def

lemmas handler_defs =
  connection_def disconnect_def cleanup_def chat_join_def chat_leave_def message_send_def
  message_deliver_def message_read_def typing_start_def typing_stop_def updateActivity_def broadcastUserStatus_def
  friendship_findFirst_def friendship_findMany_def friendship_between_def friendId_of_def
  message_create_def message_update_def MessageType_def type_of_data_def report_def falsy_def
  js_str_def room_id_def js_sort_def set_add_def set_delete_def CONNECTION_TIMEOUT_def
  isUserOnline_def handles_def rejected_def notifications_def Let_def

section \<open>Room identifiers\<close>

text \<open>
  Claim C5. The room identifier is symmetric: for all identities \<open>a\<close> and \<open>b\<close> the room
  that \<open>a\<close> computes for the peer \<open>b\<close> is the room that \<open>b\<close> computes for the peer \<open>a\<close>.
  \<open>chat:join\<close>, \<open>message:send\<close> and the other handlers all compute it with \<open>room_id\<close>.
\<close>

theorem room_id_symmetric: "room_id a (Some b) = room_id b (Some a)"
  by (auto simp: room_id_def js_sort_def js_str_def)

section \<open>Authorization of join and send\<close>

text \<open>
  Claim C1, as the code has it. Let \<open>b\<close> be an identity with which the caller has no
  unblocked friendship row. Then \<open>chat:join\<close> and \<open>message:send\<close> towards \<open>b\<close> are always
  rejected: the only effect is one failure object, to the callback if there is one, else
  as an \<open>error\<close> event; the state is the one before with the caller's activity stamp
  refreshed, so the transport rooms, \<open>userRooms\<close> and the store are unchanged, whatever
  the presence entries are. The failure of a join is \<open>Can only chat with friends\<close>, unless
  the relationship lookup throws, which gives \<open>Failed to join chat room\<close>. The failure of
  a send is \<open>Content and receiverId required\<close> for a missing or empty content,
  \<open>Message too long (max 5000 characters)\<close> for a content longer than 5000, and otherwise
  \<open>Can only message friends\<close>, unless the lookup throws, which gives
  \<open>Failed to send message\<close>.
\<close>

theorem strangers_rejected:
  assumes "find (friendship_between (userId sock) b) (friendships (db st)) = None" and "b \<noteq> []"
  shows "chat_join st sock \<lparr>otherUserId = Some b\<rparr> cb now =
           (updateActivity (userId sock) now st,
            report cb (Failure (if FriendshipFindFirst \<in> set (unavailable (db st))
                                then ''Failed to join chat room''
                                else ''Can only chat with friends''))) \<and>
         message_send st sock \<lparr>receiverId_arg = Some b, content_arg = c, type_arg = ty, tempId = t\<rparr>
             cb now new_id =
           (updateActivity (userId sock) now st,
            report cb (Failure (if falsy c then ''Content and receiverId required''
                                else if 5000 < length (js_str c)
                                then ''Message too long (max 5000 characters)''
                                else if FriendshipFindFirst \<in> set (unavailable (db st))
                                then ''Failed to send message''
                                else ''Can only message friends''))) \<and>
         rejected cb (snd (chat_join st sock \<lparr>otherUserId = Some b\<rparr> cb now)) \<and>
         rejected cb (snd (message_send st sock
                        \<lparr>receiverId_arg = Some b, content_arg = c, type_arg = ty, tempId = t\<rparr> cb now new_id)) \<and>
         sockets (fst (chat_join st sock \<lparr>otherUserId = Some b\<rparr> cb now)) = sockets st \<and>
         userRooms (fst (chat_join st sock \<lparr>otherUserId = Some b\<rparr> cb now)) = userRooms st \<and>
         db (fst (message_send st sock
                    \<lparr>receiverId_arg = Some b, content_arg = c, type_arg = ty, tempId = t\<rparr> cb now new_id)) = db st"
  using assms
  by (simp add: chat_join_def message_send_def Let_def falsy_def js_str_def friendship_findFirst_def)

theorem strangers_rejected_witness:
  "find (friendship_between (userId alice) ''u3'') (friendships (db both_online)) = None \<and>
   snd (chat_join both_online alice \<lparr>otherUserId = Some ''u3''\<rparr> True 300001) =
     [Callback (Failure ''Can only chat with friends'')] \<and>
   snd (message_send both_online alice
          \<lparr>receiverId_arg = Some ''u3'', content_arg = Some ''hi'', type_arg = None, tempId = None\<rparr>
          True 300001 ''m1'') =
     [Callback (Failure ''Can only message friends'')] \<and>
   sockets (fst (chat_join both_online alice \<lparr>otherUserId = Some ''u3''\<rparr> True 300001)) =
     sockets both_online \<and>
   db (fst (message_send both_online alice
          \<lparr>receiverId_arg = Some ''u3'', content_arg = Some ''hi'', type_arg = None, tempId = None\<rparr>
          True 300001 ''m1'')) = db both_online"
  using strangers_rejected [of alice "''u3''" both_online True 300001 "Some ''hi''" None None "''m1''"]
  by (simp add: example_defs friendship_between_def falsy_def js_str_def report_def)

text \<open>
  The claim as stated (every such send is answered with \<open>Can only message friends\<close>, every
  such join with \<open>Can only chat with friends\<close>) fails: validation comes first in
  \<open>message:send\<close>, and a lookup that throws is reported as a failed join.
\<close>

theorem strangers_other_rejections:
  "find (friendship_between (userId alice) ''u3'') (friendships (db both_online)) = None \<and>
   snd (message_send both_online alice
          \<lparr>receiverId_arg = Some ''u3'', content_arg = Some [], type_arg = None, tempId = None\<rparr>
          True 300001 ''m1'') =
     [Callback (Failure ''Content and receiverId required'')] \<and>
   snd (chat_join (both_online\<lparr>db := store\<lparr>unavailable := [FriendshipFindFirst]\<rparr>\<rparr>) alice
          \<lparr>otherUserId = Some ''u3''\<rparr> True 300001) =
     [Callback (Failure ''Failed to join chat room'')]"
  by (simp add: example_defs handler_defs)

section \<open>Validation of the content length\<close>

text \<open>
  Claim C6, as the code has it. A \<open>message:send\<close> whose content is longer than 5000 is
  rejected before the store is touched: the only effect is one failure object, to the
  callback if there is one and as an \<open>error\<close> event otherwise; the store and the
  connected sockets are unchanged. The message is \<open>Message too long (max 5000 characters)\<close>
  when \<open>receiverId\<close> is present, and \<open>Content and receiverId required\<close> when it is missing
  or empty.
\<close>

theorem oversized_content_rejected:
  assumes "content_arg data = Some text" and "length text > 5000"
  shows "message_send st sock data cb now new_id =
           (updateActivity (userId sock) now st,
            report cb (Failure (if falsy (receiverId_arg data)
                                then ''Content and receiverId required''
                                else ''Message too long (max 5000 characters)''))) \<and>
         db (fst (message_send st sock data cb now new_id)) = db st \<and>
         sockets (fst (message_send st sock data cb now new_id)) = sockets st"
  using assms by (auto simp: message_send_def Let_def falsy_def js_str_def split: option.splits)

theorem oversized_content_rejected_witness:
  "length (replicate 5001 CHR ''a'') > 5000 \<and>
   message_send both_online alice
     \<lparr>receiverId_arg = Some ''u2'', content_arg = Some (replicate 5001 CHR ''a''), type_arg = None,
      tempId = None\<rparr> False 300001 ''m1'' =
     (updateActivity ''u1'' 300001 both_online,
      [SocketEmit ''error'' (Failure ''Message too long (max 5000 characters)'')])"
  using oversized_content_rejected
          [of "\<lparr>receiverId_arg = Some ''u2'', content_arg = Some (replicate 5001 CHR ''a''),
                type_arg = None, tempId = None\<rparr>" "replicate 5001 CHR ''a''"
              both_online alice False 300001 "''m1''"]
  by (simp add: alice_def falsy_def report_def)

text \<open>The claim as stated fails when the oversized send names no receiver: the failure
  is then the one of the first check, not the length-specific one.\<close>

theorem oversized_without_receiver:
  "length (replicate 5001 CHR ''a'') > 5000 \<and>
   snd (message_send both_online alice
          \<lparr>receiverId_arg = None, content_arg = Some (replicate 5001 CHR ''a''), type_arg = None,
           tempId = None\<rparr> True 300001 ''m1'') =
     [Callback (Failure ''Content and receiverId required'')] \<and>
   ''Content and receiverId required'' \<noteq> ''Message too long (max 5000 characters)''"
  by (simp add: message_send_def Let_def falsy_def report_def)

section \<open>Persistence failure\<close>



section \<open>Notification of a receiver outside the room\<close>




section \<open>Read receipts\<close>

text \<open>
  Claim C9. Calling \<open>message:read\<close> twice on the id of a stored message (the store
  answering the first call) leaves that message stored with \<open>isRead = true\<close> after the
  first call and after the second, whoever makes the second call and whether or not its
  update succeeds. Neither call turns a read flag back to false: after each of them every
  stored message has the id it had and is read if it was read before.
\<close>

theorem markRead_idempotent:
  assumes "messageId data = Some i" and "messageId data' = Some i"
    and "i \<in> set (map msg_id (messages (db st)))"
    and "MessageUpdate \<notin> set (unavailable (db st))"
  shows "(\<forall>m \<in> set (messages (db (fst (message_read st sock data cb now)))). msg_id m = i \<longrightarrow> isRead m) \<and>
         (\<forall>m \<in> set (messages (db (fst (message_read (fst (message_read st sock data cb now))
                                        sock' data' cb' now')))). msg_id m = i \<longrightarrow> isRead m) \<and>
         i \<in> set (map msg_id (messages (db (fst (message_read (fst (message_read st sock data cb now))
                                        sock' data' cb' now'))))) \<and>
         list_all2 (\<lambda>m m'. msg_id m' = msg_id m \<and> (isRead m \<longrightarrow> isRead m'))
           (messages (db st)) (messages (db (fst (message_read st sock data cb now)))) \<and>
         list_all2 (\<lambda>m m'. msg_id m' = msg_id m \<and> (isRead m \<longrightarrow> isRead m'))
           (messages (db (fst (message_read st sock data cb now))))
           (messages (db (fst (message_read (fst (message_read st sock data cb now)) sock' data' cb' now'))))"
proof -
  define st1 where "st1 = fst (message_read st sock data cb now)"
  define st2 where "st2 = fst (message_read st1 sock' data' cb' now')"
  obtain d where d: "message_update (db st) (Some i) now = Inr d"
    using assms(3,4) by (auto simp: message_update_def)
  then have db1: "db st1 = d"
    using assms(1) by (simp add: st1_def message_read_def Let_def)
  have r1: "i \<in> set (map msg_id (messages (db st1)))"
    and f1: "\<forall>m \<in> set (messages (db st1)). msg_id m = i \<longrightarrow> isRead m"
    using message_update_read [OF d] db1 by auto
  have mono1: "list_all2 (\<lambda>m m'. msg_id m' = msg_id m \<and> (isRead m \<longrightarrow> isRead m'))
                (messages (db st)) (messages (db st1))"
    unfolding st1_def by (rule message_read_flags)
  have mono2: "list_all2 (\<lambda>m m'. msg_id m' = msg_id m \<and> (isRead m \<longrightarrow> isRead m'))
                (messages (db st1)) (messages (db st2))"
    unfolding st2_def by (rule message_read_flags)
  have f2: "\<forall>m \<in> set (messages (db st2)). msg_id m = i \<longrightarrow> isRead m"
  proof
    fix m' assume "m' \<in> set (messages (db st2))"
    then obtain k where k: "k < length (messages (db st2))" "messages (db st2) ! k = m'"
      by (auto simp: in_set_conv_nth)
    from mono2 k have "msg_id m' = msg_id (messages (db st1) ! k)"
      and "isRead (messages (db st1) ! k) \<longrightarrow> isRead m'" and "k < length (messages (db st1))"
      by (auto simp: list_all2_conv_all_nth)
    with f1 show "msg_id m' = i \<longrightarrow> isRead m'" by auto
  qed
  have "map msg_id (messages (db st2)) = map msg_id (messages (db st1))"
    using mono2 by (auto simp: list_all2_conv_all_nth intro: nth_equalityI)
  with r1 have r2: "i \<in> set (map msg_id (messages (db st2)))" by simp
  show ?thesis using f1 f2 r2 mono1 mono2 unfolding st1_def st2_def by blast
qed

theorem markRead_idempotent_witness:
  "''m0'' \<in> set (map msg_id (messages (db inbox))) \<and>
   messages (db (fst (message_read inbox bob read_m0 True 300001))) =
     [unread\<lparr>isRead := True, readAt := Some 300001\<rparr>] \<and>
   messages (db (fst (message_read (fst (message_read inbox bob read_m0 True 300001))
                        bob read_m0 True 300002))) =
     [unread\<lparr>isRead := True, readAt := Some 300002\<rparr>] \<and>
   isRead (unread\<lparr>isRead := True, readAt := Some 300002\<rparr>)"
proof -
  have stored: "''m0'' \<in> set (map msg_id (messages (db inbox)))"
    and up: "MessageUpdate \<notin> set (unavailable (db inbox))"
    by (simp_all add: example_defs)
  have id: "messageId read_m0 = Some ''m0''"
    by (simp add: read_m0_def)
  show ?thesis
    using markRead_idempotent [OF id id stored up, of bob True 300001 bob True 300002]
    by (simp add: example_defs handler_defs)
qed

section \<open>Typing indicators\<close>

text \<open>
  Claim C10, as the code has it. For every \<open>typing:start\<close> and \<open>typing:stop\<close> event that
  carries a payload object, in every state, the handler forwards one \<open>typing:user\<close> event
  (caller id, caller name, the typing flag) to the room made of the caller's id and the
  \<open>receiverId\<close> of the payload, the smaller of the two first and a dash between them (the
  caller's id and a dash when \<open>receiverId\<close> is missing), for the sockets of that room
  other than the caller's. The state only has the caller's activity stamp refreshed. The
  result does not depend on the friendship table, on \<open>userRooms\<close> or on the caller's
  transport rooms: there is no relationship check and no membership check.
\<close>

theorem typing_forwarded_without_authorization:
  "typing_start st sock (Some d) now =
     Inr (updateActivity (userId sock) now st,
          [SocketBroadcast
             (case typing_receiverId d of
                None \<Rightarrow> userId sock @ ''-''
              | Some r \<Rightarrow> if userId sock \<le> r then userId sock @ ''-'' @ r
                          else r @ ''-'' @ userId sock)
             ''typing:user'' (Typing (userId sock) (username sock) True)]) \<and>
   typing_stop st sock (Some d) now =
     Inr (updateActivity (userId sock) now st,
          [SocketBroadcast
             (case typing_receiverId d of
                None \<Rightarrow> userId sock @ ''-''
              | Some r \<Rightarrow> if userId sock \<le> r then userId sock @ ''-'' @ r
                          else r @ ''-'' @ userId sock)
             ''typing:user'' (Typing (userId sock) (username sock) False)]) \<and>
   recipients st' sock
     (SocketBroadcast room ''typing:user'' (Typing (userId sock) (username sock) flag)) =
     map (\<lambda>(s, rs). sock_id s)
       (filter (\<lambda>(s, rs). room \<in> set rs \<and> sock_id s \<noteq> sock_id sock) (sockets st'))"
  by (cases "typing_receiverId d")
     (simp_all add: typing_start_def typing_stop_def room_id_def js_sort_def js_str_def)

text \<open>The claim as stated, for every typing event, fails for an event without payload:
  the handler throws and nothing is forwarded.\<close>

theorem typing_without_payload_throws:
  "typing_start both_online alice None 300001 = Inl (TypeError, updateActivity ''u1'' 300001 both_online) \<and>
   typing_stop both_online alice None 300001 = Inl (TypeError, updateActivity ''u1'' 300001 both_online)"
  by (simp add: typing_start_def typing_stop_def alice_def)

text \<open>For instance, once a friendship is blocked a join is refused, while a typing event
  of the blocked party still reaches the peer who sits in the room.\<close>

lemma typing_reaches_blocked_peer:
  "snd (chat_join blocked_pair alice \<lparr>otherUserId = Some ''u2''\<rparr> True 300001) =
     [Callback (Failure ''Can only chat with friends'')] \<and>
   typing_start blocked_pair alice (Some \<lparr>typing_receiverId = Some ''u2''\<rparr>) 300001 =
     Inr (updateActivity ''u1'' 300001 blocked_pair,
          [SocketBroadcast ''u1-u2'' ''typing:user'' (Typing ''u1'' ''alice'' True)]) \<and>
   recipients (updateActivity ''u1'' 300001 blocked_pair) alice
     (SocketBroadcast ''u1-u2'' ''typing:user'' (Typing ''u1'' ''alice'' True)) = [''s2'']"
  by (simp add: example_defs typing_start_def chat_join_def friendship_findFirst_def
        friendship_between_def falsy_def js_str_def report_def room_id_def js_sort_def Let_def)

section \<open>Presence broadcasts\<close>

text \<open>
  Claim C3, as the code has it. Every registration of a presence entry, that is every
  connection, triggers the \<open>online\<close> broadcast exactly once, whether the identity was
  absent or already present: the handler makes one call of \<open>broadcastUserStatus\<close> for the
  identity and nothing else. The connection stores the new handle with the current time
  for the identity and leaves the entries of the other identities as they are. When the
  friendship query of a triggered broadcast is answered from a store \<open>d\<close>, the broadcast
  emits \<open>user:status\<close> events announcing the identity and nothing else, exactly one for
  each unblocked friendship row of the identity whose other party has a presence entry
  at that time, to that party's stored handle; when the query fails nothing is emitted.
\<close>

theorem connection_broadcasts_every_time:
  "snd (connection st sock now) = [StatusBroadcast (userId sock) ''online''] \<and>
   map_of (onlineUsers (fst (connection st sock now))) (userId sock) =
     Some \<lparr>socketId = sock_id sock, lastActivity = now\<rparr> \<and>
   (\<forall>v. v \<noteq> userId sock \<longrightarrow>
      map_of (onlineUsers (fst (connection st sock now))) v = map_of (onlineUsers st) v) \<and>
   (FriendshipFindMany \<in> set (unavailable d) \<longrightarrow>
      broadcastUserStatus st' u status now' (friendship_findMany d u) = []) \<and>
   (\<forall>e \<in> set (broadcastUserStatus st' u status now' (friendship_findMany d u)).
      \<exists>h. e = IoEmit (ToSocket h) ''user:status'' (Status u status now')) \<and>
   (FriendshipFindMany \<notin> set (unavailable d) \<longrightarrow>
      count_list (broadcastUserStatus st' u status now' (friendship_findMany d u))
        (IoEmit (ToSocket h) ''user:status'' (Status u status now')) =
      length (filter (\<lambda>f. (userId1 f = u \<or> userId2 f = u) \<and> \<not> isBlocked f \<and>
                           map_option socketId (map_of (onlineUsers st') (friendId_of u f)) = Some h)
                (friendships d)) \<and>
      length (broadcastUserStatus st' u status now' (friendship_findMany d u)) =
      length (filter (\<lambda>f. (userId1 f = u \<or> userId2 f = u) \<and> \<not> isBlocked f \<and>
                           map_of (onlineUsers st') (friendId_of u f) \<noteq> None)
                (friendships d)))"
proof -
  have stored: "map_of (onlineUsers (fst (connection st sock now))) (userId sock) =
                  Some \<lparr>socketId = sock_id sock, lastActivity = now\<rparr>"
    and others: "\<forall>v. v \<noteq> userId sock \<longrightarrow>
                  map_of (onlineUsers (fst (connection st sock now))) v = map_of (onlineUsers st) v"
    by (simp_all add: connection_onlineUsers update_conv')
  have failed: "FriendshipFindMany \<in> set (unavailable d) \<longrightarrow>
      broadcastUserStatus st' u status now' (friendship_findMany d u) = []"
    by (simp add: friendship_findMany_def)
  have events: "\<forall>e \<in> set (broadcastUserStatus st' u status now' (friendship_findMany d u)).
      \<exists>h. e = IoEmit (ToSocket h) ''user:status'' (Status u status now')"
    by (blast dest: broadcastUserStatus_events)
  have counted: "FriendshipFindMany \<notin> set (unavailable d) \<longrightarrow>
      count_list (broadcastUserStatus st' u status now' (friendship_findMany d u))
        (IoEmit (ToSocket h) ''user:status'' (Status u status now')) =
      length (filter (\<lambda>f. (userId1 f = u \<or> userId2 f = u) \<and> \<not> isBlocked f \<and>
                           map_option socketId (map_of (onlineUsers st') (friendId_of u f)) = Some h)
                (friendships d)) \<and>
      length (broadcastUserStatus st' u status now' (friendship_findMany d u)) =
      length (filter (\<lambda>f. (userId1 f = u \<or> userId2 f = u) \<and> \<not> isBlocked f \<and>
                           map_of (onlineUsers st') (friendId_of u f) \<noteq> None)
                (friendships d))"
    by (simp add: friendship_findMany_def broadcastUserStatus_count broadcastUserStatus_length
          conj_commute conj_left_commute)
  from connection_snd [of st sock now] stored others failed events counted show ?thesis
    by blast
qed

theorem connection_broadcasts_every_time_witness:
  "isUserOnline both_online (userId alice_again) \<and>
   snd (connection both_online alice_again 300001) = [StatusBroadcast ''u1'' ''online''] \<and>
   map_of (onlineUsers (fst (connection both_online alice_again 300001))) ''u1'' =
     Some \<lparr>socketId = ''s3'', lastActivity = 300001\<rparr> \<and>
   map_of (onlineUsers (fst (connection both_online alice_again 300001))) ''u2'' =
     map_of (onlineUsers both_online) ''u2'' \<and>
   count_list
     (broadcastUserStatus (fst (connection both_online alice_again 300001)) ''u1'' ''online'' 300002
        (friendship_findMany store ''u1''))
     (IoEmit (ToSocket ''s2'') ''user:status'' (Status ''u1'' ''online'' 300002)) = 1 \<and>
   length
     (broadcastUserStatus (fst (connection both_online alice_again 300001)) ''u1'' ''online'' 300002
        (friendship_findMany store ''u1'')) = 1"
  using connection_broadcasts_every_time
          [where st = both_online and sock = alice_again and now = 300001 and d = store
             and st' = "fst (connection both_online alice_again 300001)" and u = "''u1''"
             and status = "''online''" and now' = 300002 and h = "''s2''"]
  by (simp add: example_defs handler_defs)

text \<open>The claim as stated (a re-registration of a present identity triggers no further
  \<open>online\<close> broadcast) fails: \<open>u1\<close> is present and connects again, the broadcast is
  triggered again, and the friend \<open>u2\<close> is told once more.\<close>

theorem reconnection_broadcasts_again:
  "isUserOnline both_online (userId alice_again) \<and>
   snd (connection both_online alice_again 300001) = [StatusBroadcast ''u1'' ''online''] \<and>
   broadcastUserStatus (fst (connection both_online alice_again 300001)) ''u1'' ''online'' 300002
     (friendship_findMany (db (fst (connection both_online alice_again 300001))) ''u1'') =
     [IoEmit (ToSocket ''s2'') ''user:status'' (Status ''u1'' ''online'' 300002)]"
  by (simp add: example_defs handler_defs)

section \<open>Eviction by the cleanup interval\<close>

text \<open>
  Claim C2 at a concrete state. \<open>u1\<close> and \<open>u2\<close> are friends and both present; \<open>u1\<close> has been
  inactive for more than five minutes. The cleanup interval removes the presence entry
  and the \<open>userRooms\<close> entry of \<open>u1\<close>; it triggers no broadcast and emits nothing, and it
  leaves the socket of \<open>u1\<close> connected. The disconnect handler at the same state triggers
  the \<open>offline\<close> broadcast, which tells \<open>u2\<close> that \<open>u1\<close> is offline.
\<close>

theorem cleanup_evicts_without_broadcast:
  "cleanup both_online 300001 =
     (both_online\<lparr>onlineUsers := [(''u2'', \<lparr>socketId = ''s2'', lastActivity = 299000\<rparr>)],
                  userRooms := [(''u2'', [])]\<rparr>, []) \<and>
   sockets (fst (cleanup both_online 300001)) = [(alice, []), (bob, [])] \<and>
   snd (disconnect both_online alice 300001) = [StatusBroadcast ''u1'' ''offline''] \<and>
   broadcastUserStatus (fst (disconnect both_online alice 300001)) ''u1'' ''offline'' 300001
     (friendship_findMany (db (fst (disconnect both_online alice 300001))) ''u1'') =
     [IoEmit (ToSocket ''s2'') ''user:status'' (Status ''u1'' ''offline'' 300001)]"
  by (simp add: example_defs handler_defs)

text \<open>The cleanup interval never triggers a broadcast and never emits anything.\<close>

lemma cleanup_silent: "snd (cleanup st now) = []"
  by (simp add: cleanup_def split: prod.splits)

section \<open>Presence under a superseding connection\<close>

text \<open>
  Claim C4 at a concrete run. \<open>u1\<close> connects with socket \<open>s1\<close>, connects again with socket
  \<open>s3\<close>, and then the first socket disconnects. The disconnect handler deletes the entry
  of \<open>u1\<close> although it holds the handle \<open>s3\<close>: \<open>u1\<close> is reported offline while the socket
  \<open>s3\<close> of \<open>u1\<close> is connected.
\<close>

theorem superseded_disconnect_clears_presence:
  "map_of (handles (fst (connection (fst (connection idle alice 0)) alice_again 10))) ''u1'' = Some ''s3'' \<and>
   isUserOnline
     (fst (disconnect (fst (connection (fst (connection idle alice 0)) alice_again 10)) alice 20))
     ''u1'' = False \<and>
   map fst (sockets
     (fst (disconnect (fst (connection (fst (connection idle alice 0)) alice_again 10)) alice 20)))
     = [alice_again] \<and>
   userId alice_again = ''u1''"
  by (simp add: example_defs handler_defs)

section \<open>Presence entries and connected sockets\<close>

lemma updateActivity_entry:
  "map_of (onlineUsers (updateActivity v now st)) u = Some d \<Longrightarrow>
   \<exists>d0. map_of (onlineUsers st) u = Some d0 \<and> socketId d0 = socketId d"
  by (auto simp: updateActivity_lookup split: if_splits)

lemma cleanup_loop_entry:
  "cleanup_loop now es (ou, ur, c) = (ou', ur', c') \<Longrightarrow> map_of ou' u = Some d \<Longrightarrow>
   map_of ou u = Some d"
proof (induction es arbitrary: ou ur c)
  case Nil
  then show ?case by simp
next
  case (Cons e es)
  obtain v userData where e: "e = (v, userData)" by (cases e)
  show ?case
  proof (cases "now - lastActivity userData > CONNECTION_TIMEOUT")
    case True
    with Cons.prems e
    have "cleanup_loop now es (AList.delete v ou, AList.delete v ur, c + 1) = (ou', ur', c')"
      by simp
    from Cons.IH [OF this Cons.prems(2)] show ?thesis
      by (auto simp: delete_conv' split: if_splits)
  next
    case False
    with Cons.prems e have "cleanup_loop now es (ou, ur, c) = (ou', ur', c')" by simp
    from Cons.IH [OF this Cons.prems(2)] show ?thesis .
  qed
qed

lemma handle_entry:
  assumes "map_of (onlineUsers (fst (handle st ev now))) u = Some d"
  shows "(\<exists>d0. map_of (onlineUsers st) u = Some d0 \<and> socketId d0 = socketId d \<and>
                (\<forall>sock. ev = Disconnect sock \<longrightarrow> userId sock \<noteq> u)) \<or>
         (\<exists>sock. ev = Connection sock \<and> userId sock = u \<and> sock_id sock = socketId d)"
proof (cases ev)
  case (Connection sock)
  with assms show ?thesis
    by (cases "u = userId sock") (auto simp: connection_onlineUsers update_conv')
next
  case (Disconnect sock)
  with assms show ?thesis
    by (auto simp: disconnect_def Let_def delete_conv' split: if_splits)
next
  case (ChatJoin sock data cb)
  with assms show ?thesis
    by (auto simp: chat_join_event_def chat_join_def Let_def
             split: if_splits sum.splits option.splits dest: updateActivity_entry)
next
  case (ChatLeave sock data cb)
  with assms show ?thesis
    by (auto simp: chat_leave_event_def chat_leave_def Let_def split: option.splits
             dest: updateActivity_entry)
next
  case (MessageSend sock data cb new_id)
  with assms show ?thesis
    by (auto simp: message_send_event_def message_send_def Let_def
             split: if_splits sum.splits option.splits prod.splits dest: updateActivity_entry)
next
  case (TypingStart sock data)
  with assms show ?thesis
    by (auto simp: typing_start_def Let_def split: option.splits dest: updateActivity_entry)
next
  case (TypingStop sock data)
  with assms show ?thesis
    by (auto simp: typing_stop_def Let_def split: option.splits dest: updateActivity_entry)
next
  case (MessageRead sock data cb)
  with assms show ?thesis
    by (auto simp: message_read_event_def message_read_def Let_def
             split: sum.splits option.splits dest: updateActivity_entry)
next
  case (StatusAnswered u' status answer)
  with assms show ?thesis by auto
next
  case (Heartbeat sock cb)
  with assms show ?thesis
    by (auto simp: heartbeat_def dest: updateActivity_entry)
next
  case CleanupInterval
  with assms show ?thesis
    by (auto simp: cleanup_def split: prod.splits dest: cleanup_loop_entry)
qed

lemma keys_delete: "fst ` set (AList.delete k al) = fst ` set al - {k}"
  by (induction al) auto

lemma handle_connected:
  "connected (fst (handle st ev now)) =
     (case ev of Connection sock \<Rightarrow> insert sock (connected st)
               | Disconnect sock \<Rightarrow> connected st - {sock}
               | _ \<Rightarrow> connected st)"
proof (cases ev)
  case (Connection sock)
  then show ?thesis by (simp add: connected_def connection_def Let_def dom_update)
next
  case (Disconnect sock)
  then show ?thesis by (simp add: connected_def disconnect_def Let_def keys_delete)
next
  case (ChatJoin sock data cb)
  then show ?thesis
    by (auto simp: connected_def chat_join_event_def chat_join_def Let_def dom_map_entry
             split: sum.splits option.splits)
next
  case (ChatLeave sock data cb)
  then show ?thesis
    by (simp add: connected_def chat_leave_event_def chat_leave_def Let_def dom_map_entry
          split: option.splits)
next
  case (MessageSend sock data cb new_id)
  then show ?thesis
    by (auto simp: connected_def message_send_event_def message_send_def Let_def
             split: sum.splits option.splits prod.splits)
next
  case (TypingStart sock data)
  then show ?thesis
    by (simp add: connected_def typing_start_def Let_def split: option.splits)
next
  case (TypingStop sock data)
  then show ?thesis
    by (simp add: connected_def typing_stop_def Let_def split: option.splits)
next
  case (MessageRead sock data cb)
  then show ?thesis
    by (auto simp: connected_def message_read_event_def message_read_def Let_def
             split: sum.splits option.splits)
next
  case CleanupInterval
  then show ?thesis by (auto simp: connected_def cleanup_def split: prod.splits)
qed (simp_all add: connected_def heartbeat_def)

text \<open>
  In every reachable state a presence entry points at a connected socket of its user:
  whoever is reported online has a live connection, and it is the one whose id is stored.
  (The converse fails, see C4.)
\<close>

lemma presence_entry_connected:
  assumes "reachable st" and "map_of (onlineUsers st) u = Some d"
  shows "\<exists>sock \<in> connected st. sock_id sock = socketId d \<and> userId sock = u"
  using assms
proof (induction arbitrary: u d rule: reachable.induct)
  case (start db0)
  then show ?case by simp
next
  case (event st ev now)
  from handle_entry [OF event.prems]
  consider (kept) d0 where "map_of (onlineUsers st) u = Some d0" "socketId d0 = socketId d"
      "\<forall>sock. ev = Disconnect sock \<longrightarrow> userId sock \<noteq> u"
    | (new) sock where "ev = Connection sock" "userId sock = u" "sock_id sock = socketId d"
    by blast
  then show ?case
  proof cases
    case kept
    from event.IH [OF kept(1)] obtain s where
      s: "s \<in> connected st" "sock_id s = socketId d0" "userId s = u" by blast
    with kept(3) have "s \<in> connected (fst (handle st ev now))"
      unfolding handle_connected by (auto split: event.splits)
    with s kept(2) show ?thesis by auto
  next
    case new
    have "sock \<in> connected (fst (handle st ev now))"
      unfolding handle_connected using new(1) by simp
    with new show ?thesis by blast
  qed
next
  case (store st db')
  then show ?case by (simp add: connected_def)
qed

text \<open>The example states are states of runs.\<close>

lemma idle_reachable: "reachable idle"
  unfolding idle_def by (rule reachable.start)

lemma both_online_reachable: "reachable both_online"
proof -
  have "both_online = fst (handle (fst (handle idle (Connection alice) 0)) (Connection bob) 299000)"
    by (simp add: example_defs connection_def Let_def)
  moreover have "reachable (fst (handle (fst (handle idle (Connection alice) 0)) (Connection bob) 299000))"
    by (intro reachable.event idle_reachable)
  ultimately show ?thesis by (simp only:)
qed

lemma superseded_reachable:
  "reachable (fst (disconnect (fst (connection (fst (connection idle alice 0)) alice_again 10)) alice 20))"
proof -
  have "reachable (fst (handle (fst (handle (fst (handle idle (Connection alice) 0))
                                  (Connection alice_again) 10)) (Disconnect alice) 20))"
    by (intro reachable.event idle_reachable)
  then show ?thesis by simp
qed

lemma second_device_reachable: "reachable second_device"
proof -
  have "reachable (fst (handle (fst (handle (fst (handle (fst (handle idle (Connection alice) 0))
           (Connection bob) 10)) (ChatJoin bob (Some \<lparr>otherUserId = Some ''u1''\<rparr>) True) 20))
           (Connection bob_again) 30))"
    by (intro reachable.event idle_reachable)
  then show ?thesis by (simp add: second_device_def chat_join_event_def)
qed

lemma second_device_joined_reachable: "reachable second_device_joined"
proof -
  have "reachable (fst (handle (fst (handle (fst (handle (fst (handle (fst (handle idle
           (Connection alice) 0)) (Connection bob) 10)) (Connection bob_again) 20))
           (ChatJoin bob_again (Some \<lparr>otherUserId = Some ''u1''\<rparr>) True) 30))
           (ChatLeave bob (Some \<lparr>otherUserId = Some ''u1''\<rparr>) True) 40))"
    by (intro reachable.event idle_reachable)
  then show ?thesis
    by (simp add: second_device_joined_def chat_join_event_def chat_leave_event_def)
qed

text \<open>
  When the delivery runs at a reachable state, its notification is delivered: the socket
  whose id is the receiver's stored handle is connected, and it is the only recipient.
\<close>

lemma notification_delivered_to_handle:
  assumes "reachable st"
    and "map_of (onlineUsers st) (js_str (receiverId_arg data)) = Some receiverData"
    and "room_id (userId sock) (receiverId_arg data)
           \<notin> set (case map_of (userRooms st) (js_str (receiverId_arg data)) of
                    None \<Rightarrow> [] | Some rs \<Rightarrow> rs)"
  shows "\<exists>e. notifications (message_deliver st sock data cb msg) = [e] \<and>
             set (recipients st sock e) = {socketId receiverData}"
proof -
  have n: "notifications (message_deliver st sock data cb msg) =
              [IoEmit (ToSocket (socketId receiverData)) ''message:notification''
                 (Notification (userId sock) (username sock)
                    (take 50 (js_str (content_arg data))) (msg_id msg))]"
    using assms(2,3) by (simp add: message_deliver_notifications)
  from presence_entry_connected [OF assms(1,2)] obtain s where
    "s \<in> connected st" "sock_id s = socketId receiverData" by blast
  then have "set (map sock_id (filter (\<lambda>s. sock_id s = socketId receiverData) (map fst (sockets st))))
               = {socketId receiverData}"
    by (auto simp: connected_def)
  with n show ?thesis by simp
qed

end
